theory Spec2Isabelle
  imports Main "HOL-Library.Word"
begin

section \<open>Host values, native data and faults\<close>

text \<open>
  The binding sits between Python and a C library reached through cffi. A C string is a
  pointer that is either null or points at bytes; a Python text string is a list of code
  points; an opaque native handle is an address, again behind a pointer that may be null.
\<close>

type_synonym byte = "8 word"
type_synonym bytes = "byte list"
type_synonym unicode = "nat list"
type_synonym addr = nat

datatype 'a cptr = NULL | Ptr 'a

text \<open>
  A key handed to \<open>__getitem__\<close> is any Python object. Only two things are ever asked of
  it: whether it is an instance of \<open>int\<close> (integers and, since \<open>bool\<close> subclasses
  \<open>int\<close>, the two booleans), and the name of its class for the message of the TypeError.
  \<open>PyObj cls\<close> stands for every object that is not an instance of \<open>int\<close>.
\<close>

datatype pyval = PyInt int | PyBool bool | PyObj string

fun isinstance_int :: "pyval \<Rightarrow> bool" where
  "isinstance_int (PyInt i) = True"
| "isinstance_int (PyBool b) = True"
| "isinstance_int (PyObj cls) = False"

fun class_name :: "pyval \<Rightarrow> string" where
  "class_name (PyInt i) = ''int''"
| "class_name (PyBool b) = ''bool''"
| "class_name (PyObj cls) = cls"

text \<open>The integer an instance of \<open>int\<close> compares and converts as: \<open>True\<close> is 1, \<open>False\<close> is 0.\<close>

fun int_value :: "pyval \<Rightarrow> int" where
  "int_value (PyInt i) = i"
| "int_value (PyBool b) = (if b then 1 else 0)"
| "int_value (PyObj cls) = 0"

text \<open>
  Every exception the modelled code can raise, as a value. \<open>TypeError\<close> carries the class
  name its message prints, \<open>ValueError\<close> the URI, \<open>UnknownPlaylistType\<close> is the
  \<open>RuntimeError('Unknown playlist type: ...')\<close> of \<open>__getitem__\<close> with the tag,
  \<open>NullString\<close> is cffi's RuntimeError for \<open>ffi.string\<close> on a null pointer,
  \<open>SpotifyError\<close> is \<open>spotify.Error\<close> with its \<open>error_code\<close> and message.
\<close>

datatype error =
    AssertionError
  | ValueError unicode
  | TypeError string
  | IndexError
  | UnknownPlaylistType int
  | NullString
  | UnicodeDecodeError
  | SpotifyError int unicode
  | Timeout

section \<open>The native library\<close>

text \<open>
  \<open>lib\<close> is the cffi library object: its functions, and the constants of the processed
  header \<open>api.processed.h\<close>, which is not among the sources and is therefore a parameter.
  C integers come back as machine words and are read as Python integers with \<open>sint\<close>
  (\<open>int\<close>, \<open>sp_error\<close>, \<open>sp_playlist_type\<close>) or \<open>uint\<close> (\<open>sp_uint64\<close>).
  \<open>symbols\<close> is \<open>dir(lib)\<close> with the value \<open>getattr(lib, attr)\<close> beside each name.
  The folder-name call takes the buffer size and yields the bytes it writes.
\<close>

record lib =
  symbols :: "(string \<times> int) list"
  SP_ERROR_OK :: int
  SP_PLAYLIST_TYPE_PLAYLIST :: int
  SP_PLAYLIST_TYPE_START_FOLDER :: int
  SP_PLAYLIST_TYPE_END_FOLDER :: int
  sp_error_message :: "int \<Rightarrow> bytes cptr"
  sp_playlist_is_loaded :: "addr cptr \<Rightarrow> 8 word"
  sp_playlist_name :: "addr cptr \<Rightarrow> bytes cptr"
  sp_playlist_get_description :: "addr cptr \<Rightarrow> bytes cptr"
  sp_playlist_rename :: "addr cptr \<Rightarrow> bytes \<Rightarrow> 32 word"
  sp_playlistcontainer_num_playlists :: "addr cptr \<Rightarrow> 32 word"
  sp_playlistcontainer_playlist_type :: "addr cptr \<Rightarrow> int \<Rightarrow> 32 word"
  sp_playlistcontainer_playlist :: "addr cptr \<Rightarrow> int \<Rightarrow> addr cptr"
  sp_playlistcontainer_playlist_folder_id :: "addr cptr \<Rightarrow> int \<Rightarrow> 64 word"
  sp_playlistcontainer_playlist_folder_name :: "addr cptr \<Rightarrow> int \<Rightarrow> nat \<Rightarrow> bytes"

text \<open>
  The calls that change the native reference count are logged in the order they happen:
  \<open>sp_playlist_add_ref(p)\<close>, and \<open>ffi.gc(p, lib.sp_playlist_release)\<close>, which registers
  one release of \<open>p\<close> for the time the wrapper is collected.
\<close>

datatype native_call = Playlist_add_ref "addr cptr" | Gc_playlist_release "addr cptr"

type_synonym trace = "native_call list"

record Playlist =
  sp_playlist :: "addr cptr"

record PlaylistContainer =
  sp_playlistcontainer :: "addr cptr"

record PlaylistFolder =
  folder_id :: int
  folder_name :: unicode
  folder_type :: int

datatype entry = Item Playlist | Folder PlaylistFolder

text \<open>
  What the sources use of the repository but do not contain: the UTF-8 codec behind
  \<open>decode('utf-8')\<close> (\<open>None\<close> when the bytes are not valid), \<open>utils.to_bytes\<close>, and
  \<open>spotify.Link(uri).as_playlist()\<close>, which may raise, yields a Playlist or \<open>None\<close>, and
  may itself touch reference counts.
\<close>

record host =
  utf8_decode :: "bytes \<Rightarrow> unicode option"
  to_bytes :: "unicode \<Rightarrow> error + bytes"
  link_as_playlist :: "unicode \<Rightarrow> trace \<Rightarrow> (error + Playlist option) \<times> trace"

section \<open>Strings\<close>

text \<open>\<open>ffi.string(chars)\<close>: the bytes up to the first NUL; a RuntimeError on a null pointer.\<close>

definition ffi_string :: "bytes cptr \<Rightarrow> error + bytes" where
  "ffi_string chars =
     (case chars of
        NULL \<Rightarrow> Inl NullString
      | Ptr bs \<Rightarrow> Inr (takeWhile (\<lambda>b. b \<noteq> 0) bs))"

text \<open>
  \<open>_to_unicode\<close> of \<open>spotify/__init__.py\<close>: \<open>ffi.string(chars).decode('utf-8')\<close>.
  \<open>playlist.py\<close> calls it as \<open>utils.to_unicode\<close>.
\<close>

definition to_unicode :: "host \<Rightarrow> bytes cptr \<Rightarrow> error + unicode" where
  "to_unicode h chars =
     (case ffi_string chars of
        Inl e \<Rightarrow> Inl e
      | Inr bs \<Rightarrow> (case utf8_decode h bs of None \<Rightarrow> Inl UnicodeDecodeError | Some s \<Rightarrow> Inr s))"

text \<open>
  Modelled from the spec: \<open>utils.get_with_fixed_buffer\<close>, which is not among the sources.
  The name is fetched into a buffer of fixed capacity: the native call is given the
  capacity, what it writes beyond the capacity is lost, and the buffer is decoded.
\<close>

definition get_with_fixed_buffer :: "host \<Rightarrow> nat \<Rightarrow> (nat \<Rightarrow> bytes) \<Rightarrow> error + unicode" where
  "get_with_fixed_buffer h buffer_length func =
     to_unicode h (Ptr (take buffer_length (func buffer_length)))"

section \<open>Playlist\<close>

text \<open>Truthiness of the two constructor arguments in \<open>assert uri or sp_playlist\<close>.\<close>

definition truthy_uri :: "unicode option \<Rightarrow> bool" where
  "truthy_uri uri = (case uri of None \<Rightarrow> False | Some u \<Rightarrow> u \<noteq> [])"

definition truthy_ptr :: "addr cptr option \<Rightarrow> bool" where
  "truthy_ptr p = (case p of None \<Rightarrow> False | Some NULL \<Rightarrow> False | Some (Ptr a) \<Rightarrow> True)"

text \<open>
  \<open>Playlist.__init__(uri=None, sp_playlist=None, add_ref=True)\<close>. The arguments default
  to Python's \<open>None\<close>; the result is the constructed object or the exception, with the
  log of native calls extended.
\<close>

definition Playlist_init ::
  "host \<Rightarrow> unicode option \<Rightarrow> addr cptr option \<Rightarrow> bool \<Rightarrow> trace \<Rightarrow> (error + Playlist) \<times> trace" where
  "Playlist_init h uri sp_playlist_arg add_ref tr =
     (if \<not> (truthy_uri uri \<or> truthy_ptr sp_playlist_arg) then (Inl AssertionError, tr)
      else
        (case uri of
           Some u \<Rightarrow>
             (case link_as_playlist h u tr of
                (Inl e, tr1) \<Rightarrow> (Inl e, tr1)
              | (Inr None, tr1) \<Rightarrow> (Inl (ValueError u), tr1)
              | (Inr (Some playlist), tr1) \<Rightarrow>
                  (let p = sp_playlist playlist
                   in (Inr \<lparr>sp_playlist = p\<rparr>, tr1 @ [Playlist_add_ref p, Gc_playlist_release p])))
         | None \<Rightarrow>
             (case sp_playlist_arg of
                None \<Rightarrow> (Inl AssertionError, tr)
              | Some p \<Rightarrow>
                  (Inr \<lparr>sp_playlist = p\<rparr>,
                   (if add_ref then tr @ [Playlist_add_ref p] else tr) @ [Gc_playlist_release p]))))"

section \<open>PlaylistContainer\<close>

text \<open>\<open>PlaylistContainer.__len__\<close>, as \<open>__getitem__\<close> calls it (not through \<open>len()\<close>).\<close>

definition PlaylistContainer_len :: "lib \<Rightarrow> PlaylistContainer \<Rightarrow> int" where
  "PlaylistContainer_len l self =
     (let length = sint (sp_playlistcontainer_num_playlists l (sp_playlistcontainer self))
      in if length = -1 then 0 else length)"

text \<open>
  \<open>PlaylistContainer.__getitem__\<close>. \<open>utils.IntEnum\<close> and \<open>utils.make_enum\<close> are not
  among the sources: \<open>PlaylistType(tag)\<close> is taken as an integer subclass with one object
  per value, so that \<open>is\<close> and \<open>in\<close> compare the tag with the named members, which are
  the constants of the header.
\<close>

definition PlaylistContainer_getitem ::
  "lib \<Rightarrow> host \<Rightarrow> PlaylistContainer \<Rightarrow> pyval \<Rightarrow> trace \<Rightarrow> (error + entry) \<times> trace" where
  "PlaylistContainer_getitem l h self key tr =
     (if \<not> isinstance_int key then (Inl (TypeError (class_name key)), tr)
      else if \<not> (0 \<le> int_value key \<and> int_value key < PlaylistContainer_len l self)
      then (Inl IndexError, tr)
      else
        (let k = int_value key;
             c = sp_playlistcontainer self;
             playlist_type = sint (sp_playlistcontainer_playlist_type l c k)
         in if playlist_type = SP_PLAYLIST_TYPE_PLAYLIST l then
              (case Playlist_init h None (Some (sp_playlistcontainer_playlist l c k)) True tr of
                 (Inl e, tr1) \<Rightarrow> (Inl e, tr1)
               | (Inr p, tr1) \<Rightarrow> (Inr (Item p), tr1))
            else if playlist_type = SP_PLAYLIST_TYPE_START_FOLDER l
                    \<or> playlist_type = SP_PLAYLIST_TYPE_END_FOLDER l then
              (case get_with_fixed_buffer h 100 (sp_playlistcontainer_playlist_folder_name l c k) of
                 Inl e \<Rightarrow> (Inl e, tr)
               | Inr name \<Rightarrow>
                   (Inr (Folder \<lparr>folder_id = uint (sp_playlistcontainer_playlist_folder_id l c k),
                                 folder_name = name, folder_type = playlist_type\<rparr>), tr))
            else (Inl (UnknownPlaylistType playlist_type), tr)))"


subsection \<open>Attribute reads\<close>

text \<open>\<open>Playlist.is_loaded\<close>: \<open>bool\<close> of the C \<open>bool\<close> the library returns.\<close>

definition Playlist_is_loaded :: "lib \<Rightarrow> Playlist \<Rightarrow> bool" where
  "Playlist_is_loaded l self = (sp_playlist_is_loaded l (sp_playlist self) \<noteq> 0)"

text \<open>\<open>Playlist.name\<close> (the getter): the decoded name, or \<open>None\<close> when it is empty.\<close>

definition Playlist_name :: "lib \<Rightarrow> host \<Rightarrow> Playlist \<Rightarrow> error + unicode option" where
  "Playlist_name l h self =
     (case to_unicode h (sp_playlist_name l (sp_playlist self)) of
        Inl e \<Rightarrow> Inl e
      | Inr name \<Rightarrow> Inr (if name \<noteq> [] then Some name else None))"

text \<open>\<open>Playlist.description\<close>: \<open>None\<close> when the native pointer is \<open>ffi.NULL\<close>.\<close>

definition Playlist_description :: "lib \<Rightarrow> host \<Rightarrow> Playlist \<Rightarrow> error + unicode option" where
  "Playlist_description l h self =
     (let description = sp_playlist_get_description l (sp_playlist self)
      in if description = NULL then Inr None
         else (case to_unicode h description of Inl e \<Rightarrow> Inl e | Inr s \<Rightarrow> Inr (Some s)))"

section \<open>Errors\<close>

text \<open>
  \<open>Error.__init__(error_code)\<close>: the exception object carries the code and the decoded
  message of \<open>lib.sp_error_message\<close>. Decoding can itself raise, and then that exception
  is the one that leaves the constructor.
\<close>

definition Error_init :: "lib \<Rightarrow> host \<Rightarrow> int \<Rightarrow> error" where
  "Error_init l h error_code =
     (case to_unicode h (sp_error_message l error_code) of
        Inl e \<Rightarrow> e
      | Inr message \<Rightarrow> SpotifyError error_code message)"

text \<open>
  Modelled from the spec: \<open>Error.maybe_raise\<close>, which the class \<open>Error\<close> of
  \<open>spotify/__init__.py\<close> does not define although \<open>playlist.py\<close> calls it. It returns
  normally on the single success code and otherwise fails with the fault built from the
  code.
\<close>

definition maybe_raise :: "lib \<Rightarrow> host \<Rightarrow> int \<Rightarrow> error + unit" where
  "maybe_raise l h error_code =
     (if error_code = SP_ERROR_OK l then Inr () else Inl (Error_init l h error_code))"

text \<open>\<open>Playlist.rename(new_name)\<close>: encode, call the native setter, hand its status to \<open>maybe_raise\<close>.\<close>

definition Playlist_rename :: "lib \<Rightarrow> host \<Rightarrow> Playlist \<Rightarrow> unicode \<Rightarrow> error + unit" where
  "Playlist_rename l h self new_name =
     (case to_bytes h new_name of
        Inl e \<Rightarrow> Inl e
      | Inr bs \<Rightarrow> maybe_raise l h (sint (sp_playlist_rename l (sp_playlist self) bs)))"

section \<open>The enum decorator\<close>

text \<open>
  Python's \<open>str.replace(old, new)\<close>: every occurrence of \<open>old\<close>, found from the left and
  without overlap, becomes \<open>new\<close>. An empty \<open>old\<close> matches before every character and at
  the end.
\<close>

function replace_nonempty :: "string \<Rightarrow> string \<Rightarrow> string \<Rightarrow> string" where
  "replace_nonempty old new [] = []"
| "replace_nonempty old new (c # cs) =
     (if old \<noteq> [] \<and> take (length old) (c # cs) = old
      then new @ replace_nonempty old new (drop (length old) (c # cs))
      else c # replace_nonempty old new cs)"
  by pat_completeness auto
termination
  by (relation "measure (\<lambda>(old, new, s). length s)") auto

definition str_replace :: "string \<Rightarrow> string \<Rightarrow> string \<Rightarrow> string" where
  "str_replace old new s =
     (if old = [] then new @ concat (map (\<lambda>c. c # new) s) else replace_nonempty old new s)"

text \<open>
  Whether \<open>old\<close> occurs in a string at some position: the test for a symbol name that
  holds the prefix a second time.
\<close>

fun occurs :: "string \<Rightarrow> string \<Rightarrow> bool" where
  "occurs old [] = (old = [])"
| "occurs old (c # cs) = (take (length old) (c # cs) = old \<or> occurs old cs)"

definition startswith :: "string \<Rightarrow> string \<Rightarrow> bool" where
  "startswith s prefix = (take (length prefix) s = prefix)"

text \<open>
  \<open>enum(prefix)(obj)\<close>: the loop over \<open>dir(lib)\<close>. \<open>obj\<close> is the class seen as its
  attribute dictionary; \<open>setattr\<close> overwrites an attribute that is already there.
\<close>

fun enum_loop :: "string \<Rightarrow> (string \<times> 'v) list \<Rightarrow> (string \<rightharpoonup> 'v) \<Rightarrow> (string \<rightharpoonup> 'v)" where
  "enum_loop prefix [] obj = obj"
| "enum_loop prefix ((attr, v) # rest) obj =
     (if startswith attr prefix
      then enum_loop prefix rest (obj(str_replace prefix [] attr \<mapsto> v))
      else enum_loop prefix rest obj)"

definition enum :: "lib \<Rightarrow> string \<Rightarrow> (string \<rightharpoonup> int) \<Rightarrow> (string \<rightharpoonup> int)" where
  "enum l prefix obj = enum_loop prefix (symbols l) obj"

section \<open>Blocking until loaded\<close>

text \<open>
  Modelled from the spec: \<open>utils.load\<close>, which is not among the sources (section 4.3).
  The object is seen through its \<open>is_loaded\<close> predicate. The world outside is the list of
  wakes still to come, each with the time that passes until it and the value of
  \<open>is_loaded\<close> after it; when the list is used up nothing ever wakes the caller again.
  The loop checks first and waits only when the object is not loaded; a wait is bounded by
  the deadline fixed at entry; without a timeout it waits for ever, which is the result
  \<open>None\<close>. \<open>waits\<close> counts the waits performed.
\<close>

record load_state =
  is_loaded :: bool
  clock :: nat
  waits :: nat

fun load_loop :: "nat option \<Rightarrow> (nat \<times> bool) list \<Rightarrow> load_state \<Rightarrow> (error + unit) option \<times> load_state" where
  "load_loop deadline [] s =
     (if is_loaded s then (Some (Inr ()), s)
      else
        (case deadline of
           None \<Rightarrow> (None, s\<lparr>waits := waits s + 1\<rparr>)
         | Some d \<Rightarrow> (Some (Inl Timeout), s\<lparr>clock := max (clock s) d, waits := waits s + 1\<rparr>)))"
| "load_loop deadline ((dt, loaded) # rest) s =
     (if is_loaded s then (Some (Inr ()), s)
      else
        (case deadline of
           None \<Rightarrow>
             load_loop deadline rest \<lparr>is_loaded = loaded, clock = clock s + dt, waits = waits s + 1\<rparr>
         | Some d \<Rightarrow>
             (if d \<le> clock s + dt
              then (Some (Inl Timeout), s\<lparr>clock := max (clock s) d, waits := waits s + 1\<rparr>)
              else load_loop deadline rest
                     \<lparr>is_loaded = loaded, clock = clock s + dt, waits = waits s + 1\<rparr>)))"

definition load :: "nat option \<Rightarrow> (nat \<times> bool) list \<Rightarrow> load_state \<Rightarrow> (error + unit) option \<times> load_state" where
  "load timeout wakes s =
     load_loop (case timeout of None \<Rightarrow> None | Some t \<Rightarrow> Some (clock s + t)) wakes s"


section \<open>A concrete library and host\<close>

text \<open>
  One instance of the parameters, on which the theorems below are run. The codec decodes
  seven-bit input, where UTF-8 and ASCII agree, and rejects everything else. The library
  has three containers: at address 10 one with three entries (a playlist, the start of the
  folder 7 named Rock, a playlist), at address 11 one that reports the sentinel, and
  every other container is empty. The symbol table is in the order of \<open>dir\<close>.
\<close>

definition demo_decode :: "bytes \<Rightarrow> unicode option" where
  "demo_decode bs = (if list_all (\<lambda>b. b < 128) bs then Some (map unat bs) else None)"

definition demo_encode :: "unicode \<Rightarrow> error + bytes" where
  "demo_encode s = (if list_all (\<lambda>c. c < 128) s then Inr (map of_nat s) else Inl (ValueError s))"

definition demo_link :: "unicode \<Rightarrow> trace \<Rightarrow> (error + Playlist option) \<times> trace" where
  "demo_link u tr =
     (if u = [1] then (Inr (Some \<lparr>sp_playlist = Ptr 5\<rparr>), tr @ [Gc_playlist_release (Ptr 5)])
      else (Inr None, tr))"

definition demo_host :: host where
  "demo_host = \<lparr>utf8_decode = demo_decode, to_bytes = demo_encode, link_as_playlist = demo_link\<rparr>"

definition demo_lib :: lib where
  "demo_lib =
     \<lparr>symbols = [(''SP_ERROR_BAD_API_VERSION'', 1), (''SP_ERROR_OK'', 0),
                 (''SP_PLAYLIST_TYPE_PLAYLIST'', 0)],
      SP_ERROR_OK = 0,
      SP_PLAYLIST_TYPE_PLAYLIST = 0,
      SP_PLAYLIST_TYPE_START_FOLDER = 1,
      SP_PLAYLIST_TYPE_END_FOLDER = 2,
      sp_error_message = (\<lambda>code. Ptr (if code = 0 then [79, 75] else [66, 97, 100])),
      sp_playlist_is_loaded = (\<lambda>p. if p = Ptr 1 then 1 else 0),
      sp_playlist_name = (\<lambda>p. Ptr (if p = Ptr 2 then [82, 111, 99, 107] else [])),
      sp_playlist_get_description = (\<lambda>p. if p = Ptr 1 then NULL else if p = Ptr 2 then Ptr [] else Ptr [72, 105]),
      sp_playlist_rename = (\<lambda>p bs. if p = Ptr 1 then 0 else 10),
      sp_playlistcontainer_num_playlists = (\<lambda>c. if c = Ptr 10 then 3 else if c = Ptr 11 then -1 else 0),
      sp_playlistcontainer_playlist_type = (\<lambda>c k. if k = 1 then 1 else 0),
      sp_playlistcontainer_playlist = (\<lambda>c k. Ptr (100 + nat k)),
      sp_playlistcontainer_playlist_folder_id = (\<lambda>c k. 7),
      sp_playlistcontainer_playlist_folder_name = (\<lambda>c k n. [82, 111, 99, 107, 0])\<rparr>"


section \<open>Shared facts\<close>

lemma to_unicode_not_TypeError: "to_unicode h p \<noteq> Inl (TypeError m)"
  by (simp add: to_unicode_def ffi_string_def split: cptr.splits option.splits)

lemma Playlist_init_ptr:
  "Playlist_init h None (Some (Ptr a)) True tr =
     (Inr \<lparr>sp_playlist = Ptr a\<rparr>, tr @ [Playlist_add_ref (Ptr a), Gc_playlist_release (Ptr a)])"
  by (simp add: Playlist_init_def truthy_uri_def truthy_ptr_def)

lemma Playlist_init_null:
  "Playlist_init h None (Some NULL) True tr = (Inl AssertionError, tr)"
  by (simp add: Playlist_init_def truthy_uri_def truthy_ptr_def)

lemma load_loop_loaded: "is_loaded s \<Longrightarrow> load_loop d w s = (Some (Inr ()), s)"
  by (induction d w s rule: load_loop.induct) simp_all

lemma load_loop_success_loaded: "load_loop d w s = (Some (Inr ()), s') \<Longrightarrow> is_loaded s'"
  by (induction d w s rule: load_loop.induct) (auto split: if_splits option.splits)

lemma occurs_empty: "occurs [] s"
  by (cases s) simp_all

lemma replace_nonempty_absent: "\<not> occurs old s \<Longrightarrow> replace_nonempty old new s = s"
  by (induction s) simp_all

lemma startswith_split: "startswith a prefix \<Longrightarrow> a = prefix @ drop (length prefix) a"
  by (metis append_take_drop_id startswith_def)

lemma str_replace_strip:
  assumes "startswith a prefix" and "\<not> occurs prefix (drop (length prefix) a)"
  shows "str_replace prefix [] a = drop (length prefix) a"
proof -
  from assms(2) have ne: "prefix \<noteq> []"
    using occurs_empty by auto
  with assms(1) obtain c cs where a: "a = c # cs"
    by (cases a) (auto simp: startswith_def)
  have "replace_nonempty prefix [] (c # cs) = replace_nonempty prefix [] (drop (length prefix) (c # cs))"
    using ne assms(1) by (simp add: startswith_def a)
  also have "\<dots> = drop (length prefix) (c # cs)"
    using assms(2) by (simp add: a replace_nonempty_absent)
  finally show ?thesis
    using ne by (simp add: str_replace_def a)
qed

lemma enum_loop_untouched:
  "\<forall>(a, w) \<in> set syms. startswith a prefix \<longrightarrow> str_replace prefix [] a \<noteq> name \<Longrightarrow>
   enum_loop prefix syms obj name = obj name"
  by (induction syms arbitrary: obj) auto

section \<open>Indexing a container\<close>

text \<open>
  C1. For every container and every key, \<open>__getitem__\<close> raises TypeError, naming the
  key's class, when the key is not an instance of \<open>int\<close>; for an integer key it raises
  IndexError unless \<open>0 \<le> key < len\<close>; and whenever it returns an entry the key is an
  integer inside that range. Neither fault touches a reference count.
\<close>

theorem getitem_faults:
  "(\<not> isinstance_int key \<longrightarrow>
      PlaylistContainer_getitem l h self key tr = (Inl (TypeError (class_name key)), tr))
   \<and> (isinstance_int key \<and> \<not> (0 \<le> int_value key \<and> int_value key < PlaylistContainer_len l self) \<longrightarrow>
      PlaylistContainer_getitem l h self key tr = (Inl IndexError, tr))
   \<and> (\<forall>e. fst (PlaylistContainer_getitem l h self key tr) = Inr e \<longrightarrow>
      isinstance_int key \<and> 0 \<le> int_value key \<and> int_value key < PlaylistContainer_len l self)"
  by (auto simp: PlaylistContainer_getitem_def)

theorem getitem_faults_witness:
  "PlaylistContainer_getitem demo_lib demo_host \<lparr>sp_playlistcontainer = Ptr 10\<rparr> (PyObj ''str'') []
     = (Inl (TypeError ''str''), [])
   \<and> PlaylistContainer_getitem demo_lib demo_host \<lparr>sp_playlistcontainer = Ptr 10\<rparr> (PyInt 3) []
     = (Inl IndexError, [])
   \<and> PlaylistContainer_getitem demo_lib demo_host \<lparr>sp_playlistcontainer = Ptr 10\<rparr> (PyInt (-1)) []
     = (Inl IndexError, [])
   \<and> fst (PlaylistContainer_getitem demo_lib demo_host \<lparr>sp_playlistcontainer = Ptr 10\<rparr> (PyInt 2) [])
     = Inr (Item \<lparr>sp_playlist = Ptr 102\<rparr>)
   \<and> PlaylistContainer_len demo_lib \<lparr>sp_playlistcontainer = Ptr 10\<rparr> = 3"
  using getitem_faults [of "PyObj ''str''" demo_lib demo_host "\<lparr>sp_playlistcontainer = Ptr 10\<rparr>" "[]"]
    getitem_faults [of "PyInt 3" demo_lib demo_host "\<lparr>sp_playlistcontainer = Ptr 10\<rparr>" "[]"]
    getitem_faults [of "PyInt (-1)" demo_lib demo_host "\<lparr>sp_playlistcontainer = Ptr 10\<rparr>" "[]"]
    getitem_faults [of "PyInt 2" demo_lib demo_host "\<lparr>sp_playlistcontainer = Ptr 10\<rparr>" "[]"]
  by (simp add: PlaylistContainer_getitem_def PlaylistContainer_len_def demo_lib_def Playlist_init_ptr)

text \<open>
  C2. The native length call reports a count or the sentinel -1, that is a value of at
  least -1. For every such value \<open>__len__\<close> is non-negative: a count is returned as it
  is and the sentinel becomes 0. When the sentinel is reported, every lookup with an
  index, whatever the integer, raises IndexError and touches no reference count.
\<close>

theorem len_nonneg_from_sentinel:
  assumes "- 1 \<le> sint (sp_playlistcontainer_num_playlists l (sp_playlistcontainer self))"
  shows "0 \<le> PlaylistContainer_len l self
    \<and> (0 \<le> sint (sp_playlistcontainer_num_playlists l (sp_playlistcontainer self)) \<longrightarrow>
         PlaylistContainer_len l self
           = sint (sp_playlistcontainer_num_playlists l (sp_playlistcontainer self)))
    \<and> (sint (sp_playlistcontainer_num_playlists l (sp_playlistcontainer self)) = - 1 \<longrightarrow>
         PlaylistContainer_len l self = 0
         \<and> (\<forall>key tr. isinstance_int key \<longrightarrow>
               PlaylistContainer_getitem l h self key tr = (Inl IndexError, tr)))"
  using assms by (auto simp: PlaylistContainer_len_def PlaylistContainer_getitem_def Let_def)

theorem len_nonneg_from_sentinel_witness:
  "- 1 \<le> sint (sp_playlistcontainer_num_playlists demo_lib (Ptr 11))
   \<and> sint (sp_playlistcontainer_num_playlists demo_lib (Ptr 11)) = - 1
   \<and> PlaylistContainer_len demo_lib \<lparr>sp_playlistcontainer = Ptr 11\<rparr> = 0
   \<and> PlaylistContainer_getitem demo_lib demo_host \<lparr>sp_playlistcontainer = Ptr 11\<rparr> (PyInt 0) []
        = (Inl IndexError, [])
   \<and> sint (sp_playlistcontainer_num_playlists demo_lib (Ptr 10)) = 3
   \<and> PlaylistContainer_len demo_lib \<lparr>sp_playlistcontainer = Ptr 10\<rparr> = 3"
proof -
  have h: "- 1 \<le> sint (sp_playlistcontainer_num_playlists demo_lib
             (sp_playlistcontainer \<lparr>sp_playlistcontainer = Ptr 11\<rparr>))"
    by (simp add: demo_lib_def)
  have s: "sint (sp_playlistcontainer_num_playlists demo_lib (Ptr 11)) = - 1"
    by (simp add: demo_lib_def)
  have h3: "- 1 \<le> sint (sp_playlistcontainer_num_playlists demo_lib
             (sp_playlistcontainer \<lparr>sp_playlistcontainer = Ptr 10\<rparr>))"
    by (simp add: demo_lib_def)
  have s3: "sint (sp_playlistcontainer_num_playlists demo_lib (Ptr 10)) = 3"
    by (simp add: demo_lib_def)
  have a: "PlaylistContainer_len demo_lib \<lparr>sp_playlistcontainer = Ptr 11\<rparr> = 0
     \<and> PlaylistContainer_getitem demo_lib demo_host \<lparr>sp_playlistcontainer = Ptr 11\<rparr> (PyInt 0) []
        = (Inl IndexError, [])"
    using s len_nonneg_from_sentinel [OF h, of demo_host] by simp
  have b: "PlaylistContainer_len demo_lib \<lparr>sp_playlistcontainer = Ptr 10\<rparr> = 3"
    using s3 len_nonneg_from_sentinel [OF h3, of demo_host] by simp
  from h s s3 a b show ?thesis by simp
qed

text \<open>
  C9. \<open>__getitem__\<close> raises a TypeError exactly when the key is not an instance of
  \<open>int\<close>. A boolean is one: \<open>True\<close> is looked up as index 1 and \<open>False\<close> as index 0.
\<close>

theorem getitem_bool_keys:
  "((\<exists>m. fst (PlaylistContainer_getitem l h self key tr) = Inl (TypeError m)) = (\<not> isinstance_int key))
   \<and> PlaylistContainer_getitem l h self (PyBool True) tr = PlaylistContainer_getitem l h self (PyInt 1) tr
   \<and> PlaylistContainer_getitem l h self (PyBool False) tr = PlaylistContainer_getitem l h self (PyInt 0) tr"
  by (auto simp: PlaylistContainer_getitem_def Let_def Playlist_init_def get_with_fixed_buffer_def
      to_unicode_not_TypeError split: if_splits option.splits sum.splits cptr.splits prod.splits)

theorem getitem_bool_keys_witness:
  "fst (PlaylistContainer_getitem demo_lib demo_host \<lparr>sp_playlistcontainer = Ptr 10\<rparr> (PyBool True) [])
     = Inr (Folder \<lparr>folder_id = 7, folder_name = [82, 111, 99, 107], folder_type = 1\<rparr>)
   \<and> fst (PlaylistContainer_getitem demo_lib demo_host \<lparr>sp_playlistcontainer = Ptr 10\<rparr> (PyBool False) [])
     = Inr (Item \<lparr>sp_playlist = Ptr 100\<rparr>)"
  using getitem_bool_keys [of demo_lib demo_host "\<lparr>sp_playlistcontainer = Ptr 10\<rparr>" "PyBool True" "[]"]
  by (simp add: PlaylistContainer_getitem_def PlaylistContainer_len_def demo_lib_def Playlist_init_ptr
      get_with_fixed_buffer_def to_unicode_def ffi_string_def demo_host_def demo_decode_def)

text \<open>
  C3. At a valid index the entry is decoded by the tag the library reports for it. The
  PLAYLIST tag gives a Playlist around the handle the library returns, after one
  \<open>add_ref\<close> on that handle and with one release registered (a null handle fails the
  constructor's assertion instead). A START_FOLDER or
  END_FOLDER tag gives a PlaylistFolder with the folder id, the tag as its type, and the
  name decoded from a buffer of at most 100 bytes, touching no reference count. Every
  other tag raises the RuntimeError for an unknown playlist type and yields no entry.
\<close>

theorem getitem_decodes:
  assumes "isinstance_int key" and "0 \<le> int_value key"
    and "int_value key < PlaylistContainer_len l self"
    and "tag = sint (sp_playlistcontainer_playlist_type l (sp_playlistcontainer self) (int_value key))"
    and "buf = take 100 (sp_playlistcontainer_playlist_folder_name l (sp_playlistcontainer self) (int_value key) 100)"
  shows "(tag = SP_PLAYLIST_TYPE_PLAYLIST l \<longrightarrow>
            (\<forall>a. sp_playlistcontainer_playlist l (sp_playlistcontainer self) (int_value key) = Ptr a \<longrightarrow>
               PlaylistContainer_getitem l h self key tr =
                 (Inr (Item \<lparr>sp_playlist = Ptr a\<rparr>),
                  tr @ [Playlist_add_ref (Ptr a), Gc_playlist_release (Ptr a)]))
            \<and> (sp_playlistcontainer_playlist l (sp_playlistcontainer self) (int_value key) = NULL \<longrightarrow>
               PlaylistContainer_getitem l h self key tr = (Inl AssertionError, tr)))
    \<and> (tag \<noteq> SP_PLAYLIST_TYPE_PLAYLIST l
         \<and> (tag = SP_PLAYLIST_TYPE_START_FOLDER l \<or> tag = SP_PLAYLIST_TYPE_END_FOLDER l) \<longrightarrow>
            length buf \<le> 100
            \<and> (\<forall>name. utf8_decode h (takeWhile (\<lambda>b. b \<noteq> 0) buf) = Some name \<longrightarrow>
                 PlaylistContainer_getitem l h self key tr =
                   (Inr (Folder \<lparr>folder_id = uint (sp_playlistcontainer_playlist_folder_id l
                                                (sp_playlistcontainer self) (int_value key)),
                                  folder_name = name, folder_type = tag\<rparr>), tr))
            \<and> (utf8_decode h (takeWhile (\<lambda>b. b \<noteq> 0) buf) = None \<longrightarrow>
                 PlaylistContainer_getitem l h self key tr = (Inl UnicodeDecodeError, tr)))
    \<and> (tag \<noteq> SP_PLAYLIST_TYPE_PLAYLIST l \<and> tag \<noteq> SP_PLAYLIST_TYPE_START_FOLDER l
         \<and> tag \<noteq> SP_PLAYLIST_TYPE_END_FOLDER l \<longrightarrow>
            PlaylistContainer_getitem l h self key tr = (Inl (UnknownPlaylistType tag), tr))"
  using assms
  by (simp add: PlaylistContainer_getitem_def Let_def Playlist_init_ptr Playlist_init_null
      get_with_fixed_buffer_def to_unicode_def ffi_string_def)

theorem getitem_decodes_witness:
  "PlaylistContainer_getitem demo_lib demo_host \<lparr>sp_playlistcontainer = Ptr 10\<rparr> (PyInt 0) []
     = (Inr (Item \<lparr>sp_playlist = Ptr 100\<rparr>), [Playlist_add_ref (Ptr 100), Gc_playlist_release (Ptr 100)])
   \<and> PlaylistContainer_getitem demo_lib demo_host \<lparr>sp_playlistcontainer = Ptr 10\<rparr> (PyInt 1) []
     = (Inr (Folder \<lparr>folder_id = 7, folder_name = [82, 111, 99, 107], folder_type = 1\<rparr>), [])
   \<and> PlaylistContainer_getitem
        (demo_lib\<lparr>sp_playlistcontainer_playlist_type := \<lambda>c k. 3\<rparr>) demo_host
        \<lparr>sp_playlistcontainer = Ptr 10\<rparr> (PyInt 2) []
     = (Inl (UnknownPlaylistType 3), [])"
proof -
  let ?c = "\<lparr>sp_playlistcontainer = Ptr 10\<rparr>"
  let ?l3 = "demo_lib\<lparr>sp_playlistcontainer_playlist_type := \<lambda>c k. 3\<rparr>"
  have len: "PlaylistContainer_len demo_lib ?c = 3" "PlaylistContainer_len ?l3 ?c = 3"
    by (simp_all add: PlaylistContainer_len_def demo_lib_def)
  have i: "isinstance_int (PyInt 0)" "isinstance_int (PyInt 1)" "isinstance_int (PyInt 2)"
    by simp_all
  have lo: "0 \<le> int_value (PyInt 0)" "0 \<le> int_value (PyInt 1)" "0 \<le> int_value (PyInt 2)"
    by simp_all
  have hi: "int_value (PyInt 0) < PlaylistContainer_len demo_lib ?c"
    "int_value (PyInt 1) < PlaylistContainer_len demo_lib ?c"
    "int_value (PyInt 2) < PlaylistContainer_len ?l3 ?c"
    by (simp_all add: len)
  have t0: "0 = sint (sp_playlistcontainer_playlist_type demo_lib (sp_playlistcontainer ?c)
                      (int_value (PyInt 0)))"
    by (simp add: demo_lib_def)
  have t1: "1 = sint (sp_playlistcontainer_playlist_type demo_lib (sp_playlistcontainer ?c)
                      (int_value (PyInt 1)))"
    by (simp add: demo_lib_def)
  have t2: "3 = sint (sp_playlistcontainer_playlist_type ?l3 (sp_playlistcontainer ?c)
                      (int_value (PyInt 2)))"
    by simp
  have vals: "SP_PLAYLIST_TYPE_PLAYLIST demo_lib = 0" "SP_PLAYLIST_TYPE_START_FOLDER demo_lib = 1"
    "SP_PLAYLIST_TYPE_END_FOLDER demo_lib = 2"
    "sp_playlistcontainer_playlist demo_lib (Ptr 10) 0 = Ptr 100"
    "sp_playlistcontainer_playlist_folder_id demo_lib (Ptr 10) 1 = 7"
    "sp_playlistcontainer_playlist_folder_name demo_lib (Ptr 10) 1 100 = [82, 111, 99, 107, 0]"
    by (simp_all add: demo_lib_def)
  have dec: "utf8_decode demo_host [82, 111, 99, 107] = Some [82, 111, 99, 107]"
    by (simp add: demo_host_def demo_decode_def)
  have a: "PlaylistContainer_getitem demo_lib demo_host ?c (PyInt 0) []
     = (Inr (Item \<lparr>sp_playlist = Ptr 100\<rparr>), [Playlist_add_ref (Ptr 100), Gc_playlist_release (Ptr 100)])"
    using getitem_decodes [OF i(1) lo(1) hi(1) t0 refl, of demo_host "[]"]
    by (simp add: vals)
  have b: "PlaylistContainer_getitem demo_lib demo_host ?c (PyInt 1) []
     = (Inr (Folder \<lparr>folder_id = 7, folder_name = [82, 111, 99, 107], folder_type = 1\<rparr>), [])"
    using getitem_decodes [OF i(2) lo(2) hi(2) t1 refl, of demo_host "[]"]
    by (simp add: vals dec)
  have c: "PlaylistContainer_getitem ?l3 demo_host ?c (PyInt 2) [] = (Inl (UnknownPlaylistType 3), [])"
    using getitem_decodes [OF i(3) lo(3) hi(3) t2 refl, of demo_host "[]"]
    by (simp add: vals)
  from a b c show ?thesis by simp
qed

section \<open>Construction and attribute reads\<close>

text \<open>
  C8. Construction from a URI does not depend on the \<open>add_ref\<close> argument. When it
  succeeds, the new Playlist wraps the handle of the Playlist the link resolved to, and the
  constructor itself made exactly one \<open>add_ref\<close> call on that handle and registered
  exactly one release for it, after whatever resolving the link did. Construction from a
  handle registers exactly one release too, and makes the \<open>add_ref\<close> call when asked.
\<close>

theorem init_from_uri_one_add_ref:
  "Playlist_init h (Some u) sp_arg add_ref tr = Playlist_init h (Some u) sp_arg True tr
   \<and> (\<forall>pl tr'. Playlist_init h (Some u) sp_arg add_ref tr = (Inr pl, tr') \<longrightarrow>
        (\<exists>src tr1. link_as_playlist h u tr = (Inr (Some src), tr1)
           \<and> sp_playlist pl = sp_playlist src
           \<and> tr' = tr1 @ [Playlist_add_ref (sp_playlist pl), Gc_playlist_release (sp_playlist pl)]))
   \<and> (\<forall>src tr1. (truthy_uri (Some u) \<or> truthy_ptr sp_arg)
           \<and> link_as_playlist h u tr = (Inr (Some src), tr1) \<longrightarrow>
        Playlist_init h (Some u) sp_arg add_ref tr =
          (Inr \<lparr>sp_playlist = sp_playlist src\<rparr>,
           tr1 @ [Playlist_add_ref (sp_playlist src), Gc_playlist_release (sp_playlist src)]))
   \<and> (\<forall>a. Playlist_init h None (Some (Ptr a)) add_ref tr =
          (Inr \<lparr>sp_playlist = Ptr a\<rparr>,
           (if add_ref then tr @ [Playlist_add_ref (Ptr a)] else tr) @ [Gc_playlist_release (Ptr a)]))"
  by (auto simp: Playlist_init_def Let_def truthy_uri_def truthy_ptr_def
      split: if_splits sum.splits option.splits prod.splits)

theorem init_from_uri_one_add_ref_witness:
  "Playlist_init demo_host (Some [1]) None False []
     = (Inr \<lparr>sp_playlist = Ptr 5\<rparr>,
        [Gc_playlist_release (Ptr 5), Playlist_add_ref (Ptr 5), Gc_playlist_release (Ptr 5)])
   \<and> Playlist_init demo_host (Some [1]) None True []
     = (Inr \<lparr>sp_playlist = Ptr 5\<rparr>,
        [Gc_playlist_release (Ptr 5), Playlist_add_ref (Ptr 5), Gc_playlist_release (Ptr 5)])"
proof -
  have pre: "(truthy_uri (Some [1]) \<or> truthy_ptr None)
     \<and> link_as_playlist demo_host [1] [] = (Inr (Some \<lparr>sp_playlist = Ptr 5\<rparr>), [Gc_playlist_release (Ptr 5)])"
    by (simp add: truthy_uri_def demo_host_def demo_link_def)
  have f: "Playlist_init demo_host (Some [1]) None False []
     = (Inr \<lparr>sp_playlist = Ptr 5\<rparr>,
        [Gc_playlist_release (Ptr 5), Playlist_add_ref (Ptr 5), Gc_playlist_release (Ptr 5)])"
    using pre init_from_uri_one_add_ref [of demo_host "[1]" None False "[]"] by fastforce
  have t: "Playlist_init demo_host (Some [1]) None True []
     = (Inr \<lparr>sp_playlist = Ptr 5\<rparr>,
        [Gc_playlist_release (Ptr 5), Playlist_add_ref (Ptr 5), Gc_playlist_release (Ptr 5)])"
    using pre init_from_uri_one_add_ref [of demo_host "[1]" None True "[]"] by fastforce
  from f t show ?thesis by simp
qed

text \<open>
  C7. \<open>Playlist.description\<close> is \<open>None\<close> when the native pointer is null, and the
  decoded string otherwise (an exception when the bytes do not decode). An empty string
  is returned only for a pointer that is not null.
\<close>

theorem description_null_is_None:
  "(sp_playlist_get_description l (sp_playlist self) = NULL \<longrightarrow>
      Playlist_description l h self = Inr None)
   \<and> (\<forall>bs s. sp_playlist_get_description l (sp_playlist self) = Ptr bs
         \<and> utf8_decode h (takeWhile (\<lambda>b. b \<noteq> 0) bs) = Some s \<longrightarrow>
      Playlist_description l h self = Inr (Some s))
   \<and> (\<forall>bs. sp_playlist_get_description l (sp_playlist self) = Ptr bs
         \<and> utf8_decode h (takeWhile (\<lambda>b. b \<noteq> 0) bs) = None \<longrightarrow>
      Playlist_description l h self = Inl UnicodeDecodeError)
   \<and> (Playlist_description l h self = Inr (Some []) \<longrightarrow>
      sp_playlist_get_description l (sp_playlist self) \<noteq> NULL)"
  by (auto simp: Playlist_description_def Let_def to_unicode_def ffi_string_def)

theorem description_null_is_None_witness:
  "Playlist_description demo_lib demo_host \<lparr>sp_playlist = Ptr 1\<rparr> = Inr None
   \<and> Playlist_description demo_lib demo_host \<lparr>sp_playlist = Ptr 2\<rparr> = Inr (Some [])
   \<and> Playlist_description demo_lib demo_host \<lparr>sp_playlist = Ptr 3\<rparr> = Inr (Some [72, 105])
   \<and> Playlist_description (demo_lib\<lparr>sp_playlist_get_description := \<lambda>p. Ptr [200]\<rparr>) demo_host
        \<lparr>sp_playlist = Ptr 3\<rparr> = Inl UnicodeDecodeError"
  using description_null_is_None [of demo_lib "\<lparr>sp_playlist = Ptr 1\<rparr>" demo_host]
    description_null_is_None [of demo_lib "\<lparr>sp_playlist = Ptr 2\<rparr>" demo_host]
    description_null_is_None [of demo_lib "\<lparr>sp_playlist = Ptr 3\<rparr>" demo_host]
    description_null_is_None [of "demo_lib\<lparr>sp_playlist_get_description := \<lambda>p. Ptr [200]\<rparr>"
      "\<lparr>sp_playlist = Ptr 3\<rparr>" demo_host]
  by (simp add: demo_lib_def demo_host_def demo_decode_def)

text \<open>
  C10. \<open>Playlist.name\<close> is \<open>None\<close> when the native name decodes to the empty string,
  and the decoded name otherwise. The accessor never consults \<open>is_loaded\<close>: two
  playlists whose native names are empty, loaded or not, give the same answer.
\<close>

theorem name_empty_is_None:
  "(to_unicode h (sp_playlist_name l (sp_playlist self)) = Inr [] \<longrightarrow> Playlist_name l h self = Inr None)
   \<and> (\<forall>s. to_unicode h (sp_playlist_name l (sp_playlist self)) = Inr s \<and> s \<noteq> [] \<longrightarrow>
         Playlist_name l h self = Inr (Some s))
   \<and> Playlist_name (l\<lparr>sp_playlist_is_loaded := loaded\<rparr>) h self = Playlist_name l h self
   \<and> (\<forall>other. to_unicode h (sp_playlist_name l (sp_playlist self)) = Inr []
         \<and> to_unicode h (sp_playlist_name l (sp_playlist other)) = Inr [] \<longrightarrow>
         Playlist_name l h self = Playlist_name l h other)"
  by (simp add: Playlist_name_def)

theorem name_empty_is_None_witness:
  "Playlist_is_loaded demo_lib \<lparr>sp_playlist = Ptr 1\<rparr>
   \<and> \<not> Playlist_is_loaded demo_lib \<lparr>sp_playlist = Ptr 3\<rparr>
   \<and> Playlist_name demo_lib demo_host \<lparr>sp_playlist = Ptr 1\<rparr> = Inr None
   \<and> Playlist_name demo_lib demo_host \<lparr>sp_playlist = Ptr 3\<rparr> = Inr None
   \<and> Playlist_name demo_lib demo_host \<lparr>sp_playlist = Ptr 2\<rparr> = Inr (Some [82, 111, 99, 107])"
  using name_empty_is_None [of demo_host demo_lib "\<lparr>sp_playlist = Ptr 1\<rparr>"]
    name_empty_is_None [of demo_host demo_lib "\<lparr>sp_playlist = Ptr 3\<rparr>"]
    name_empty_is_None [of demo_host demo_lib "\<lparr>sp_playlist = Ptr 2\<rparr>"]
  by (simp add: Playlist_is_loaded_def to_unicode_def ffi_string_def demo_lib_def demo_host_def demo_decode_def)

section \<open>Status codes\<close>

text \<open>
  C4. \<open>maybe_raise\<close> returns normally on the success code and otherwise raises the
  exception built from the code, which carries the code and the library's decoded
  message. \<open>Playlist.rename\<close> hands the status of the native call to it unchanged, so
  it returns normally only when the native call reported success.
\<close>

theorem maybe_raise_propagates:
  "(code = SP_ERROR_OK l \<longrightarrow> maybe_raise l h code = Inr ())
   \<and> (code \<noteq> SP_ERROR_OK l \<longrightarrow> maybe_raise l h code = Inl (Error_init l h code))
   \<and> (\<forall>m. code \<noteq> SP_ERROR_OK l \<and> to_unicode h (sp_error_message l code) = Inr m \<longrightarrow>
         maybe_raise l h code = Inl (SpotifyError code m))
   \<and> (\<forall>bs. to_bytes h new_name = Inr bs \<longrightarrow>
         Playlist_rename l h self new_name =
           maybe_raise l h (sint (sp_playlist_rename l (sp_playlist self) bs)))
   \<and> (Playlist_rename l h self new_name = Inr () \<longrightarrow>
         (\<exists>bs. to_bytes h new_name = Inr bs
            \<and> sint (sp_playlist_rename l (sp_playlist self) bs) = SP_ERROR_OK l))"
  by (auto simp: maybe_raise_def Error_init_def Playlist_rename_def split: sum.splits if_splits)

theorem maybe_raise_propagates_witness:
  "maybe_raise demo_lib demo_host 0 = Inr ()
   \<and> maybe_raise demo_lib demo_host 10 = Inl (SpotifyError 10 [66, 97, 100])
   \<and> Playlist_rename demo_lib demo_host \<lparr>sp_playlist = Ptr 1\<rparr> [82] = Inr ()
   \<and> Playlist_rename demo_lib demo_host \<lparr>sp_playlist = Ptr 2\<rparr> [82] = Inl (SpotifyError 10 [66, 97, 100])"
proof -
  have ok: "SP_ERROR_OK demo_lib = 0" by (simp add: demo_lib_def)
  have msg: "to_unicode demo_host (sp_error_message demo_lib 10) = Inr [66, 97, 100]"
    by (simp add: to_unicode_def ffi_string_def demo_lib_def demo_host_def demo_decode_def)
  have enc: "to_bytes demo_host [82] = Inr [82]"
    by (simp add: demo_host_def demo_encode_def)
  have rc: "sint (sp_playlist_rename demo_lib (Ptr 1) [82]) = 0"
    "sint (sp_playlist_rename demo_lib (Ptr 2) [82]) = 10"
    by (simp_all add: demo_lib_def)
  have a: "maybe_raise demo_lib demo_host 0 = Inr ()"
    using ok maybe_raise_propagates [of 0 demo_lib demo_host] by simp
  have b: "maybe_raise demo_lib demo_host 10 = Inl (SpotifyError 10 [66, 97, 100])"
    using ok msg maybe_raise_propagates [of 10 demo_lib demo_host] by force
  have c: "Playlist_rename demo_lib demo_host \<lparr>sp_playlist = Ptr 1\<rparr> [82] = Inr ()"
    using enc rc a maybe_raise_propagates [of 0 demo_lib demo_host "[82]" "\<lparr>sp_playlist = Ptr 1\<rparr>"] by simp
  have d: "Playlist_rename demo_lib demo_host \<lparr>sp_playlist = Ptr 2\<rparr> [82] = Inl (SpotifyError 10 [66, 97, 100])"
    using enc rc b maybe_raise_propagates [of 0 demo_lib demo_host "[82]" "\<lparr>sp_playlist = Ptr 2\<rparr>"] by simp
  from a b c d show ?thesis by simp
qed

section \<open>Loading\<close>

text \<open>
  C5. \<open>load\<close> on an object that is already loaded returns at once: no wait is
  performed and no time passes, whatever the timeout and whatever wakes are pending.
  Calling it again changes nothing; the same holds after any call that returned normally.
\<close>

theorem load_returns_at_once:
  "(is_loaded s \<longrightarrow> load timeout wakes s = (Some (Inr ()), s))
   \<and> (is_loaded s \<longrightarrow> load timeout' wakes' (snd (load timeout wakes s)) = (Some (Inr ()), s))
   \<and> (\<forall>s'. load timeout wakes s = (Some (Inr ()), s') \<longrightarrow>
         load timeout' wakes' s' = (Some (Inr ()), s'))"
  by (auto simp: load_def load_loop_loaded dest: load_loop_success_loaded)

theorem load_returns_at_once_witness:
  "load (Some 5) [(1, False)] \<lparr>is_loaded = True, clock = 0, waits = 0\<rparr>
     = (Some (Inr ()), \<lparr>is_loaded = True, clock = 0, waits = 0\<rparr>)
   \<and> load None [(3, False), (4, True)] \<lparr>is_loaded = False, clock = 0, waits = 0\<rparr>
     = (Some (Inr ()), \<lparr>is_loaded = True, clock = 7, waits = 2\<rparr>)
   \<and> load None [] \<lparr>is_loaded = True, clock = 7, waits = 2\<rparr>
     = (Some (Inr ()), \<lparr>is_loaded = True, clock = 7, waits = 2\<rparr>)"
proof -
  have a: "load None [(3, False), (4, True)] \<lparr>is_loaded = False, clock = 0, waits = 0\<rparr>
     = (Some (Inr ()), \<lparr>is_loaded = True, clock = 7, waits = 2\<rparr>)"
    by (simp add: load_def)
  show ?thesis
    using a load_returns_at_once [of "\<lparr>is_loaded = True, clock = 0, waits = 0\<rparr>" "Some 5" "[(1, False)]" None "[]"]
      load_returns_at_once [of "\<lparr>is_loaded = False, clock = 0, waits = 0\<rparr>" None "[(3, False), (4, True)]" None "[]"]
    by simp
qed

section \<open>Enumerations derived from symbol names\<close>

text \<open>
  C6. \<open>dir\<close> lists every name once, and a symbol follows the prefix convention when it
  starts with the prefix and does not hold it again further on. On such a table the
  decorator binds, for every symbol that starts with the prefix, the attribute named by
  the symbol name without the prefix, with the symbol's value, whatever the class held
  before and whichever symbols the table holds besides.
\<close>

theorem enum_binds_stripped_name:
  assumes "(attr, v) \<in> set (symbols l)" and "distinct (map fst (symbols l))"
    and "startswith attr prefix"
    and "\<forall>(a, w) \<in> set (symbols l). startswith a prefix \<longrightarrow> \<not> occurs prefix (drop (length prefix) a)"
  shows "enum l prefix obj (drop (length prefix) attr) = Some v"
proof -
  have "(attr, v) \<in> set syms \<Longrightarrow> distinct (map fst syms) \<Longrightarrow>
        \<forall>(a, w) \<in> set syms. startswith a prefix \<longrightarrow> \<not> occurs prefix (drop (length prefix) a) \<Longrightarrow>
        enum_loop prefix syms ob (drop (length prefix) attr) = Some v" for syms ob
  proof (induction syms arbitrary: ob)
    case Nil
    then show ?case by simp
  next
    case (Cons x rest)
    obtain a w where x: "x = (a, w)" by (cases x)
    show ?case
    proof (cases "(attr, v) = (a, w)")
      case True
      have strip: "str_replace prefix [] attr = drop (length prefix) attr"
        using Cons.prems(3) assms(3) True x by (intro str_replace_strip) auto
      have others: "\<forall>(a', w') \<in> set rest. startswith a' prefix \<longrightarrow>
                      str_replace prefix [] a' \<noteq> drop (length prefix) attr"
      proof (clarify)
        fix a' w'
        assume in_rest: "(a', w') \<in> set rest" and sw: "startswith a' prefix"
          and eq: "str_replace prefix [] a' = drop (length prefix) attr"
        have "\<not> occurs prefix (drop (length prefix) a')"
          using Cons.prems(3) in_rest sw by auto
        with sw have "str_replace prefix [] a' = drop (length prefix) a'"
          by (rule str_replace_strip)
        with eq have "drop (length prefix) a' = drop (length prefix) attr" by simp
        with startswith_split [OF sw] startswith_split [OF assms(3)] have "a' = attr" by metis
        moreover have "a' \<noteq> a"
          using Cons.prems(2) in_rest x by (force simp: image_iff)
        ultimately show False using True by simp
      qed
      show ?thesis
        using True x assms(3) strip enum_loop_untouched [OF others] by simp
    next
      case False
      with Cons.prems(1) x have "(attr, v) \<in> set rest" by auto
      moreover have "distinct (map fst rest)" using Cons.prems(2) by simp
      moreover have "\<forall>(a, w) \<in> set rest. startswith a prefix \<longrightarrow> \<not> occurs prefix (drop (length prefix) a)"
        using Cons.prems(3) by simp
      ultimately have "\<And>ob. enum_loop prefix rest ob (drop (length prefix) attr) = Some v"
        by (rule Cons.IH)
      then show ?thesis by (simp add: x)
    qed
  qed
  from this [OF assms(1) assms(2) assms(4)] show ?thesis by (simp add: enum_def)
qed

theorem enum_binds_stripped_name_witness:
  "enum demo_lib ''SP_ERROR_'' Map.empty ''OK'' = Some 0
   \<and> enum demo_lib ''SP_ERROR_'' Map.empty ''BAD_API_VERSION'' = Some 1
   \<and> enum demo_lib ''SP_PLAYLIST_TYPE_'' Map.empty ''PLAYLIST'' = Some 0"
proof -
  have s: "symbols demo_lib = [(''SP_ERROR_BAD_API_VERSION'', 1), (''SP_ERROR_OK'', 0),
                 (''SP_PLAYLIST_TYPE_PLAYLIST'', 0)]"
    by (simp add: demo_lib_def)
  have d: "distinct (map fst (symbols demo_lib))"
    by (simp add: s)
  have m: "(''SP_ERROR_OK'', 0) \<in> set (symbols demo_lib)"
    "(''SP_ERROR_BAD_API_VERSION'', 1) \<in> set (symbols demo_lib)"
    "(''SP_PLAYLIST_TYPE_PLAYLIST'', 0) \<in> set (symbols demo_lib)"
    by (simp_all add: s)
  have p: "startswith ''SP_ERROR_OK'' ''SP_ERROR_''"
    "startswith ''SP_ERROR_BAD_API_VERSION'' ''SP_ERROR_''"
    "startswith ''SP_PLAYLIST_TYPE_PLAYLIST'' ''SP_PLAYLIST_TYPE_''"
    by (simp_all add: startswith_def)
  have once_error: "\<forall>(a, w) \<in> set (symbols demo_lib). startswith a ''SP_ERROR_'' \<longrightarrow>
             \<not> occurs ''SP_ERROR_'' (drop (length ''SP_ERROR_'') a)"
    by (simp add: s startswith_def)
  have once_type: "\<forall>(a, w) \<in> set (symbols demo_lib). startswith a ''SP_PLAYLIST_TYPE_'' \<longrightarrow>
             \<not> occurs ''SP_PLAYLIST_TYPE_'' (drop (length ''SP_PLAYLIST_TYPE_'') a)"
    by (simp add: s startswith_def)
  have a: "enum demo_lib ''SP_ERROR_'' Map.empty ''OK'' = Some 0"
    using enum_binds_stripped_name [OF m(1) d p(1) once_error, of Map.empty] by simp
  have b: "enum demo_lib ''SP_ERROR_'' Map.empty ''BAD_API_VERSION'' = Some 1"
    using enum_binds_stripped_name [OF m(2) d p(2) once_error, of Map.empty] by simp
  have c: "enum demo_lib ''SP_PLAYLIST_TYPE_'' Map.empty ''PLAYLIST'' = Some 0"
    using enum_binds_stripped_name [OF m(3) d p(3) once_type, of Map.empty] by simp
  from a b c show ?thesis by simp
qed

end
